theory Spec2Isabelle
  imports Complex_Main
begin

section \<open>The script \<open>tounn_fixed_beam.py\<close>\<close>

text \<open>
  The script couples a finite-element solve (FEniCS) with a neural density predictor
  (PyTorch) in one training loop. Its module-level variables are the state; the libraries
  it calls (mesh, solver, network, loss, autograd, Adam) are collaborators that the model
  takes as functions, each receiving exactly the values the script hands to it.
  Finite Python floats are idealised as real numbers; the infinities and nan that NumPy
  returns where a real result does not exist are one value, \<open>NonFinite\<close>. A failure inside
  a library (a singular system, arrays of different sizes) is not modelled; the exceptions
  the script's own statements can raise are.
\<close>

subsection \<open>Parameters (lines 23, 42--61)\<close>

record config =
  log_interval :: int
  nelx :: nat
  nely :: nat
  volume_ratio :: real
  penal :: real
  learning_rate :: real
  numbers_of_layers :: nat
  nrm_threshold :: real
  min_epochs :: int
  max_epochs :: int
  dim :: nat
  alpha_increment :: real

text \<open>The values written in the script.\<close>

definition tounn_fixed_beam :: config where
  "tounn_fixed_beam =
     \<lparr> log_interval = 1, nelx = 180, nely = 60, volume_ratio = 3 / 10, penal = 3,
       learning_rate = 1 / 100, numbers_of_layers = 5, nrm_threshold = 1 / 10,
       min_epochs = 20, max_epochs = 500, dim = 2, alpha_increment = 5 / 100 \<rparr>"

text \<open>Line 59: \<open>alpha_max = 100 * volume_ratio\<close>.\<close>

definition alpha_max :: "config \<Rightarrow> real" where
  "alpha_max cfg = 100 * volume_ratio cfg"

subsection \<open>Numbers\<close>

text \<open>
  A NumPy or Torch float: a real number, or \<open>NonFinite\<close> for inf, -inf and nan. A sum or a
  product with a non-finite operand is non-finite.
\<close>

datatype np_float = Finite real | NonFinite

text \<open>What \<open>x ** y\<close> on two Python floats evaluates to: a float or a complex number.\<close>

datatype py_number = PyFloat real | PyComplex complex

subsection \<open>Values exchanged with the libraries\<close>

text \<open>The seven arguments of the call \<open>loss_function(...)\<close> of line 159, in order.\<close>

record loss_input =
  li_density :: "real list"
  li_objective :: "np_float list"
  li_vol_fraction :: real
  li_penal :: real
  li_obj_0 :: real
  li_alpha :: real
  li_volumes :: "real list"

text \<open>
  The collaborators. \<open>'p\<close> is the network's parameters, \<open>'g\<close> their gradients and
  \<open>'o\<close> the optimizer's own state. The finite-element functions receive the mesh
  resolution and the SIMP exponent the variational problem was built with (lines 64--91).
\<close>

record ('p, 'g, 'o) env =
  cell_volumes :: "nat \<Rightarrow> nat \<Rightarrow> real list"
  create_mid_points :: "nat \<Rightarrow> nat \<Rightarrow> nat \<Rightarrow> real list list"
  fe_solve :: "nat \<Rightarrow> nat \<Rightarrow> real \<Rightarrow> real list \<Rightarrow> real list"
  project_psi :: "nat \<Rightarrow> nat \<Rightarrow> real list \<Rightarrow> real list"
  init_params :: "nat \<Rightarrow> nat \<Rightarrow> nat \<Rightarrow> 'p"
  top_optimizer :: "'p \<Rightarrow> real list list \<Rightarrow> real list"
  loss_function :: "loss_input \<Rightarrow> real"
  init_grads :: "'p \<Rightarrow> 'g"
  zero_grad :: "'g \<Rightarrow> 'g"
  backward :: "'p \<Rightarrow> real list list \<Rightarrow> loss_input \<Rightarrow> 'g \<Rightarrow> 'g"
  clip_grad_norm :: "real \<Rightarrow> 'g \<Rightarrow> 'g"
  init_adam :: "real \<Rightarrow> 'p \<Rightarrow> 'o"
  adam_step :: "'o \<Rightarrow> 'p \<Rightarrow> 'g \<Rightarrow> 'o \<times> 'p"
  elapsed :: string

subsection \<open>State of the run\<close>

datatype py_error = NameError | ZeroDivisionError | AttributeError

text \<open>The statements of the loop body, logged in the order they execute.\<close>

datatype event =
    ZeroGrad
  | PredictDensity
  | SolveFE
  | ComputeLoss loss_input
  | Backpropagate
  | AnnealPenalty
  | ClipGradients
  | UpdateParameters
  | WriteFrame int
  | AppendRecord int
  | Log int

text \<open>One progress line (lines 189--190), before formatting.\<close>

record progress =
  pl_epoch :: int
  pl_objective :: np_float
  pl_vf :: np_float
  pl_loss :: real
  pl_rel_grey :: real

datatype console_line = Progress progress | TimeCost string

datatype py_value = PInt int | PFloat real | PStr string

type_synonym row = "int \<times> np_float \<times> np_float"

record ('p, 'g, 'o) state =
  params :: 'p
  grads :: 'g
  opt_state :: 'o
  alpha :: real
  density :: "real list"
  u_sol :: "real list"
  obj_0 :: real
  training_data :: "row list"
  epoch :: "int option"
  xdmf :: "(int \<times> real list) list"
  console :: "console_line list"
  csv_file :: "row list option"
  meta_file :: "(string \<times> py_value) list option"
  raised :: "py_error option"
  trace :: "event list"

subsection \<open>Arithmetic of the script\<close>

text \<open>
  \<open>x ** y\<close> on two Python floats (\<open>float.__pow__\<close>). Any base to the power 0 is 1; a
  zero base with a negative exponent raises; a negative base gives a float when the
  exponent is a whole number and the complex number
  \<open>|x| ** y * (cos (pi * y) + i sin (pi * y))\<close> otherwise.
\<close>

definition py_pow :: "real \<Rightarrow> real \<Rightarrow> py_error + py_number" where
  "py_pow x y =
     (if y = 0 then Inr (PyFloat 1)
      else if x = 0 then (if y < 0 then Inl ZeroDivisionError else Inr (PyFloat 0))
      else if 0 < x then Inr (PyFloat (x powr y))
      else if y = of_int \<lfloor>y\<rfloor> then Inr (PyFloat (x powi \<lfloor>y\<rfloor>))
      else Inr (PyComplex (Complex (\<bar>x\<bar> powr y * cos (pi * y)) (\<bar>x\<bar> powr y * sin (pi * y)))))"

text \<open>
  Line 118: \<open>((volume_ratio**penal) * psi_0).sum()\<close>, where \<open>psi_0\<close> is a NumPy float. A float
  times \<open>psi_0\<close> is a NumPy float, and \<open>.sum()\<close> returns it; a complex number times
  \<open>psi_0\<close> is a Python complex number, which has no attribute \<open>sum\<close>.
\<close>

definition reference_objective :: "real \<Rightarrow> real \<Rightarrow> real \<Rightarrow> py_error + real" where
  "reference_objective vr p psi_0 =
     (case py_pow vr p of
        Inl err \<Rightarrow> Inl err
      | Inr (PyFloat c) \<Rightarrow> Inr (c * psi_0)
      | Inr (PyComplex c) \<Rightarrow> Inl AttributeError)"

text \<open>
  \<open>x ** y\<close> elementwise on a NumPy array (\<open>numpy.power\<close>), which never raises: a zero base
  with a negative exponent gives inf, a negative base with an exponent that is no whole
  number gives nan.
\<close>

definition np_power :: "real \<Rightarrow> real \<Rightarrow> np_float" where
  "np_power x y =
     (if y = 0 then Finite 1
      else if x = 0 then (if y < 0 then NonFinite else Finite 0)
      else if 0 < x then Finite (x powr y)
      else if y = of_int \<lfloor>y\<rfloor> then Finite (x powi \<lfloor>y\<rfloor>)
      else NonFinite)"

fun np_times :: "np_float \<Rightarrow> real \<Rightarrow> np_float" where
  "np_times (Finite a) b = Finite (a * b)"
| "np_times NonFinite b = NonFinite"

fun np_add :: "np_float \<Rightarrow> np_float \<Rightarrow> np_float" where
  "np_add (Finite a) (Finite b) = Finite (a + b)"
| "np_add a b = NonFinite"

text \<open>\<open>float(objective.sum())\<close>.\<close>

definition np_sum :: "np_float list \<Rightarrow> np_float" where
  "np_sum xs = foldr np_add xs (Finite 0)"

text \<open>\<open>np.average\<close> of a vector: nan for an empty one.\<close>

definition average :: "real list \<Rightarrow> np_float" where
  "average xs = (if xs = [] then NonFinite else Finite (sum_list xs / real (length xs)))"

text \<open>Line 174: \<open>sum(1 for rho in density_new_np if ((rho > 0.05) & (rho < 0.95)))\<close>.\<close>

definition grey_elements :: "real list \<Rightarrow> int" where
  "grey_elements density_new_np =
     sum_list (map (\<lambda>rho. 1) (filter (\<lambda>rho. rho > 5 / 100 \<and> rho < 95 / 100) density_new_np))"

text \<open>Line 175: \<open>grey_elements / len(density_new_np)\<close>, a division of two Python ints.\<close>

definition rel_grey_elements :: "real list \<Rightarrow> py_error + real" where
  "rel_grey_elements density_new_np =
     (if length density_new_np = 0 then Inl ZeroDivisionError
      else Inr (real_of_int (grey_elements density_new_np) / real (length density_new_np)))"

text \<open>\<open>a % b\<close> on Python ints.\<close>

definition py_mod :: "int \<Rightarrow> int \<Rightarrow> py_error + int" where
  "py_mod a b = (if b = 0 then Inl ZeroDivisionError else Inr (a mod b))"

text \<open>Line 156: \<open>(density_new_np**(2 * penal)) * psi_vector\<close>, elementwise.\<close>

definition objective_of :: "real \<Rightarrow> real list \<Rightarrow> real list \<Rightarrow> np_float list" where
  "objective_of p density_new_np psi_vector =
     map2 (\<lambda>rho psi. np_times (np_power rho (2 * p)) psi) density_new_np psi_vector"

subsection \<open>The output writers\<close>

text \<open>
  Modelled from the spec: \<open>utils.write_to_csv\<close> is not part of the sources. The spec
  gives the file one row per training record: (epoch index, objective value, average
  density).
\<close>

definition write_to_csv :: "row list \<Rightarrow> row list" where
  "write_to_csv rows = rows"

text \<open>
  Modelled from the spec: \<open>utils.write_optimization_data\<close> is not part of the sources.
  The spec makes the file a record of the run parameters it is handed.
\<close>

definition write_optimization_data :: "(string \<times> py_value) list \<Rightarrow> (string \<times> py_value) list" where
  "write_optimization_data entries = entries"

subsection \<open>Before the loop (lines 99--134)\<close>

definition mid_points_of :: "('p, 'g, 'o) env \<Rightarrow> config \<Rightarrow> real list list" where
  "mid_points_of en cfg = create_mid_points en (nelx cfg) (nely cfg) (dim cfg)"

definition volumes_of :: "('p, 'g, 'o) env \<Rightarrow> config \<Rightarrow> real list" where
  "volumes_of en cfg = cell_volumes en (nelx cfg) (nely cfg)"

text \<open>Line 134: \<open>vol_fraction = torch.sum(volumes) * volume_ratio\<close>.\<close>

definition vol_fraction :: "('p, 'g, 'o) env \<Rightarrow> config \<Rightarrow> real" where
  "vol_fraction en cfg = sum_list (volumes_of en cfg) * volume_ratio cfg"

text \<open>
  Line 113 fills the density field, one value per cell, with 0.5; line 115 solves; lines
  117--118 compute \<open>obj_0\<close>; lines 123--124 write frame 0 and the first training record.
  When line 118 raises, the run ends there: \<open>obj_0\<close> and \<open>training_data\<close> are not bound and
  no frame is written (the field \<open>obj_0\<close> is then never read).
\<close>

definition initialize :: "('p, 'g, 'o) env \<Rightarrow> config \<Rightarrow> ('p, 'g, 'o) state" where
  "initialize en cfg =
     (let top = init_params en (dim cfg) 20 (numbers_of_layers cfg);
          density0 = replicate (length (volumes_of en cfg)) (5 / 10);
          u0 = fe_solve en (nelx cfg) (nely cfg) (penal cfg) density0;
          psi_0 = sum_list (project_psi en (nelx cfg) (nely cfg) u0);
          s = \<lparr> params = top,
                grads = init_grads en top,
                opt_state = init_adam en (learning_rate cfg) top,
                alpha = alpha_increment cfg,
                density = density0,
                u_sol = u0,
                obj_0 = 0,
                training_data = [],
                epoch = None,
                xdmf = [],
                console = [],
                csv_file = None,
                meta_file = None,
                raised = None,
                trace = [SolveFE] \<rparr>
      in case reference_objective (volume_ratio cfg) (penal cfg) psi_0 of
           Inl err \<Rightarrow> s\<lparr>raised := Some err\<rparr>
         | Inr obj0 \<Rightarrow>
             s\<lparr>obj_0 := obj0,
               xdmf := [(0, density0)],
               training_data := [(0, Finite obj0, average density0)]\<rparr>)"

subsection \<open>The loop body (lines 139--190)\<close>

definition emit :: "event \<Rightarrow> ('p, 'g, 'o) state \<Rightarrow> ('p, 'g, 'o) state" where
  "emit ev s = s\<lparr>trace := trace s @ [ev]\<rparr>"

text \<open>Lines 140--171: from \<open>optimizer.zero_grad()\<close> to \<open>optimizer.step()\<close>.\<close>

definition loss_input_of ::
  "('p, 'g, 'o) env \<Rightarrow> config \<Rightarrow> ('p, 'g, 'o) state \<Rightarrow> real list \<Rightarrow> np_float list \<Rightarrow> loss_input" where
  "loss_input_of en cfg s density_new objective =
     \<lparr> li_density = density_new, li_objective = objective,
       li_vol_fraction = vol_fraction en cfg, li_penal = penal cfg,
       li_obj_0 = obj_0 s, li_alpha = alpha s, li_volumes = volumes_of en cfg \<rparr>"

definition optimize ::
  "('p, 'g, 'o) env \<Rightarrow> config \<Rightarrow> int \<Rightarrow> ('p, 'g, 'o) state \<Rightarrow> loss_input \<times> ('p, 'g, 'o) state" where
  "optimize en cfg e s0 =
     (let s1 = emit ZeroGrad (s0\<lparr>epoch := Some e, grads := zero_grad en (grads s0)\<rparr>);
          density_new = top_optimizer en (params s1) (mid_points_of en cfg);
          s2 = emit PredictDensity s1;
          s3 = emit SolveFE
                 (s2\<lparr>density := density_new,
                     u_sol := fe_solve en (nelx cfg) (nely cfg) (penal cfg) density_new\<rparr>);
          psi_vector = project_psi en (nelx cfg) (nely cfg) (u_sol s3);
          objective = objective_of (penal cfg) density_new psi_vector;
          li = loss_input_of en cfg s3 density_new objective;
          s4 = emit (ComputeLoss li) s3;
          s5 = emit Backpropagate
                 (s4\<lparr>grads := backward en (params s4) (mid_points_of en cfg) li (grads s4)\<rparr>);
          s6 = emit AnnealPenalty
                 (s5\<lparr>alpha := min (alpha_max cfg) (alpha s5 + alpha_increment cfg)\<rparr>);
          s7 = emit ClipGradients
                 (s6\<lparr>grads := clip_grad_norm en (nrm_threshold cfg) (grads s6)\<rparr>);
          (o', p') = adam_step en (opt_state s7) (params s7) (grads s7)
      in (li, emit UpdateParameters (s7\<lparr>opt_state := o', params := p'\<rparr>)))"

text \<open>
  Lines 174--190, on the density predicted in this iteration (\<open>density_new_np\<close>), the
  objective and the loss computed from them. The division of line 175 and the remainder of
  line 188 can raise.
\<close>

definition report ::
  "('p, 'g, 'o) env \<Rightarrow> config \<Rightarrow> int \<Rightarrow> loss_input \<Rightarrow> ('p, 'g, 'o) state \<Rightarrow> ('p, 'g, 'o) state" where
  "report en cfg e li s =
     (case rel_grey_elements (li_density li) of
        Inl err \<Rightarrow> s\<lparr>raised := Some err\<rparr>
      | Inr rel_grey \<Rightarrow>
          (let s1 = emit (WriteFrame e) (s\<lparr>xdmf := xdmf s @ [(e, density s)]\<rparr>);
               objective_sum = np_sum (li_objective li);
               density_avg = average (li_density li);
               loss_item = loss_function en li;
               s2 = emit (AppendRecord e)
                      (s1\<lparr>training_data := training_data s1 @ [(e, objective_sum, density_avg)]\<rparr>)
           in case py_mod e (log_interval cfg) of
                Inl err \<Rightarrow> s2\<lparr>raised := Some err\<rparr>
              | Inr r \<Rightarrow>
                  if r = 0
                  then emit (Log e)
                         (s2\<lparr>console := console s2 @
                               [Progress \<lparr> pl_epoch = e, pl_objective = objective_sum,
                                           pl_vf = density_avg, pl_loss = loss_item,
                                           pl_rel_grey = rel_grey \<rparr>]\<rparr>)
                  else s2))"

definition train_step ::
  "('p, 'g, 'o) env \<Rightarrow> config \<Rightarrow> int \<Rightarrow> ('p, 'g, 'o) state \<Rightarrow> ('p, 'g, 'o) state" where
  "train_step en cfg e s = (let (li, s') = optimize en cfg e s in report en cfg e li s')"

subsection \<open>The loop and the end of the run (lines 137, 193--215)\<close>

text \<open>An exception ends the run: no later statement executes.\<close>

fun run_epochs ::
  "('p, 'g, 'o) env \<Rightarrow> config \<Rightarrow> ('p, 'g, 'o) state \<Rightarrow> int list \<Rightarrow> ('p, 'g, 'o) state" where
  "run_epochs en cfg s [] = s"
| "run_epochs en cfg s (e # es) =
     (if raised s \<noteq> None then s else run_epochs en cfg (train_step en cfg e s) es)"

text \<open>Line 137: \<open>for epoch in range(1, max_epochs)\<close>.\<close>

definition training_loop ::
  "('p, 'g, 'o) env \<Rightarrow> config \<Rightarrow> ('p, 'g, 'o) state \<Rightarrow> ('p, 'g, 'o) state" where
  "training_loop en cfg s = run_epochs en cfg s [1..max_epochs cfg - 1]"

text \<open>
  Lines 203--215: the dictionary is built before the writer is called, and building it
  reads the loop variable \<open>epoch\<close>, which is unbound when the loop body never ran.
\<close>

definition optimization_data ::
  "('p, 'g, 'o) env \<Rightarrow> config \<Rightarrow> int \<Rightarrow> (string \<times> py_value) list" where
  "optimization_data en cfg ep =
     [(''Dimension'', PInt (int (dim cfg))),
      (''Learning rate'', PFloat (learning_rate cfg)),
      (''Number of layers'', PInt (int (numbers_of_layers cfg))),
      (''Volume fraction'', PFloat (volume_ratio cfg)),
      (''Penalty'', PFloat (penal cfg)),
      (''Max epochs'', PInt (max_epochs cfg)),
      (''Min epochs'', PInt (min_epochs cfg)),
      (''Time'', PStr (elapsed en)),
      (''Epochs'', PInt ep),
      (''Clipping threshold'', PFloat (nrm_threshold cfg))]"

definition finish ::
  "('p, 'g, 'o) env \<Rightarrow> config \<Rightarrow> ('p, 'g, 'o) state \<Rightarrow> ('p, 'g, 'o) state" where
  "finish en cfg s =
     (if raised s \<noteq> None then s
      else
        (let s1 = s\<lparr>console := console s @ [TimeCost (elapsed en)]\<rparr>;
             s2 = s1\<lparr>csv_file := Some (write_to_csv (training_data s1))\<rparr>
         in case epoch s2 of
              None \<Rightarrow> s2\<lparr>raised := Some NameError\<rparr>
            | Some ep \<Rightarrow>
                s2\<lparr>meta_file := Some (write_optimization_data (optimization_data en cfg ep))\<rparr>))"

definition run :: "('p, 'g, 'o) env \<Rightarrow> config \<Rightarrow> ('p, 'g, 'o) state" where
  "run en cfg = finish en cfg (training_loop en cfg (initialize en cfg))"

subsection \<open>The density predictor\<close>

text \<open>
  Modelled from the spec: the module \<open>nn.top_optimizer_nn\<close> (class \<open>TopOptimizerNN\<close>) is not
  part of the sources. The spec describes a feed-forward network: an input layer of
  dimension d, a fixed number of hidden layers with a nonlinear activation between layers,
  and a final softmax normalisation; it is evaluated independently at each cell centroid,
  and its parameters (weights and biases) are its only state.
\<close>

record layer =
  weights :: "real list list"
  bias :: "real list"

record network =
  activation :: "real \<Rightarrow> real"
  hidden :: "layer list"
  output_layer :: layer

definition linear :: "layer \<Rightarrow> real list \<Rightarrow> real list" where
  "linear l x = map2 (\<lambda>w b. sum_list (map2 (*) w x) + b) (weights l) (bias l)"

fun feed :: "(real \<Rightarrow> real) \<Rightarrow> layer list \<Rightarrow> real list \<Rightarrow> real list" where
  "feed act [] x = x"
| "feed act (l # ls) x = feed act ls (map act (linear l x))"

definition softmax :: "real list \<Rightarrow> real list" where
  "softmax z = map (\<lambda>v. exp v / sum_list (map exp z)) z"

definition forward :: "network \<Rightarrow> real list \<Rightarrow> real list" where
  "forward net x = softmax (linear (output_layer net) (feed (activation net) (hidden net) x))"

text \<open>
  A call of the module on one coordinate returns the value and the module after the
  call; a batch of coordinates is evaluated one after the other.
\<close>

definition call :: "network \<Rightarrow> real list \<Rightarrow> real list \<times> network" where
  "call net x = (forward net x, net)"

fun predict :: "network \<Rightarrow> real list list \<Rightarrow> real list list \<times> network" where
  "predict net [] = ([], net)"
| "predict net (x # xs) =
     (let (y, net1) = call net x; (ys, net2) = predict net1 xs in (y # ys, net2))"

subsection \<open>Observations on a run\<close>

text \<open>
  \<open>in_order as tr\<close>: the events \<open>as\<close> occur in \<open>tr\<close> in this order (as a subsequence).
\<close>

fun in_order :: "event list \<Rightarrow> event list \<Rightarrow> bool" where
  "in_order [] tr = True"
| "in_order (a # as) [] = False"
| "in_order (a # as) (t # tr) = (if a = t then in_order as tr else in_order (a # as) tr)"

text \<open>The arguments of every loss computation of a trace, in order.\<close>

fun loss_inputs :: "event list \<Rightarrow> loss_input list" where
  "loss_inputs [] = []"
| "loss_inputs (ComputeLoss li # tr) = li # loss_inputs tr"
| "loss_inputs (ev # tr) = loss_inputs tr"

text \<open>Replacing the value of one key of the metadata.\<close>

definition set_entry ::
  "string \<Rightarrow> py_value \<Rightarrow> (string \<times> py_value) list \<Rightarrow> (string \<times> py_value) list" where
  "set_entry k v entries = map (\<lambda>(k', v'). if k' = k then (k', v) else (k', v')) entries"

subsection \<open>A small instance of the collaborators\<close>

text \<open>
  Concrete stand-ins for the libraries, on which the model can be evaluated: a mesh of two
  triangles per unit square, a solver that returns the density, a predictor that answers
  1/2 everywhere.
\<close>

definition demo_env :: "(real, real, nat) env" where
  "demo_env =
     \<lparr> cell_volumes = (\<lambda>nx ny. replicate (2 * nx * ny) (1 / 2)),
       create_mid_points = (\<lambda>nx ny d. replicate (2 * nx * ny) (replicate d 0)),
       fe_solve = (\<lambda>nx ny p d. d),
       project_psi = (\<lambda>nx ny u. u),
       init_params = (\<lambda>d n l. 0),
       top_optimizer = (\<lambda>p mps. map (\<lambda>x. 1 / 2) mps),
       loss_function = (\<lambda>li. li_obj_0 li + li_alpha li * sum_list (li_density li)),
       init_grads = (\<lambda>p. 0),
       zero_grad = (\<lambda>g. 0),
       backward = (\<lambda>p mps li g. g + 1),
       clip_grad_norm = (\<lambda>t g. min t g),
       init_adam = (\<lambda>lr p. 0),
       adam_step = (\<lambda>k p g. (Suc k, p - g)),
       elapsed = ''00:00:01'' \<rparr>"

definition demo_config :: config where
  "demo_config = tounn_fixed_beam\<lparr>nelx := 1, nely := 1, max_epochs := 3\<rparr>"

text \<open>A network with one hidden layer whose output layer ignores its input.\<close>

definition demo_net :: network where
  "demo_net =
     \<lparr> activation = (\<lambda>v. max 0 v),
       hidden = [\<lparr> weights = [[1, 0], [0, 1]], bias = [0, 0] \<rparr>],
       output_layer = \<lparr> weights = [[0, 0], [0, 0]], bias = [0, 0] \<rparr> \<rparr>"

section \<open>The loop body, statement by statement\<close>

lemma grey_elements_count:
  "grey_elements d = int (length (filter (\<lambda>rho. 5 / 100 < rho \<and> rho < 95 / 100) d))"
  by (induction d) (simp_all add: grey_elements_def)

lemma fst_optimize:
  "fst (optimize en cfg e s) =
     loss_input_of en cfg s (top_optimizer en (params s) (mid_points_of en cfg))
       (objective_of (penal cfg) (top_optimizer en (params s) (mid_points_of en cfg))
          (project_psi en (nelx cfg) (nely cfg)
             (fe_solve en (nelx cfg) (nely cfg) (penal cfg)
                (top_optimizer en (params s) (mid_points_of en cfg)))))"
  by (simp add: optimize_def Let_def emit_def loss_input_of_def split: prod.splits)

lemma li_density_optimize:
  "li_density (fst (optimize en cfg e s)) = top_optimizer en (params s) (mid_points_of en cfg)"
  by (simp add: fst_optimize loss_input_of_def)

lemma li_obj_0_optimize: "li_obj_0 (fst (optimize en cfg e s)) = obj_0 s"
  by (simp add: fst_optimize loss_input_of_def)

lemma li_alpha_optimize: "li_alpha (fst (optimize en cfg e s)) = alpha s"
  by (simp add: fst_optimize loss_input_of_def)

lemma trace_optimize:
  "trace (snd (optimize en cfg e s)) =
     trace s @ [ZeroGrad, PredictDensity, SolveFE, ComputeLoss (fst (optimize en cfg e s)),
                Backpropagate, AnnealPenalty, ClipGradients, UpdateParameters]"
  by (simp add: optimize_def Let_def emit_def split: prod.splits)

lemma console_optimize: "console (snd (optimize en cfg e s)) = console s"
  by (simp add: optimize_def Let_def emit_def split: prod.splits)

lemma obj_0_optimize: "obj_0 (snd (optimize en cfg e s)) = obj_0 s"
  by (simp add: optimize_def Let_def emit_def split: prod.splits)

lemma alpha_optimize:
  "alpha (snd (optimize en cfg e s)) = min (alpha_max cfg) (alpha s + alpha_increment cfg)"
  by (simp add: optimize_def Let_def emit_def split: prod.splits)

lemma density_optimize:
  "density (snd (optimize en cfg e s)) = top_optimizer en (params s) (mid_points_of en cfg)"
  by (simp add: optimize_def Let_def emit_def split: prod.splits)

lemma u_sol_optimize:
  "u_sol (snd (optimize en cfg e s))
     = fe_solve en (nelx cfg) (nely cfg) (penal cfg)
         (top_optimizer en (params s) (mid_points_of en cfg))"
  by (simp add: optimize_def Let_def emit_def split: prod.splits)

lemma grads_optimize:
  "grads (snd (optimize en cfg e s))
     = clip_grad_norm en (nrm_threshold cfg)
         (backward en (params s) (mid_points_of en cfg) (fst (optimize en cfg e s))
            (zero_grad en (grads s)))"
  by (simp add: optimize_def Let_def emit_def split: prod.splits)

lemma adam_optimize:
  "(opt_state (snd (optimize en cfg e s)), params (snd (optimize en cfg e s)))
     = adam_step en (opt_state s) (params s) (grads (snd (optimize en cfg e s)))"
  by (simp add: optimize_def Let_def emit_def split: prod.splits)

lemma raised_optimize: "raised (snd (optimize en cfg e s)) = raised s"
  by (simp add: optimize_def Let_def emit_def split: prod.splits)

lemma epoch_optimize: "epoch (snd (optimize en cfg e s)) = Some e"
  by (simp add: optimize_def Let_def emit_def split: prod.splits)

lemma training_data_optimize: "training_data (snd (optimize en cfg e s)) = training_data s"
  by (simp add: optimize_def Let_def emit_def split: prod.splits)

lemma train_step_report:
  "train_step en cfg e s = report en cfg e (fst (optimize en cfg e s)) (snd (optimize en cfg e s))"
  by (simp add: train_step_def split: prod.splits)

lemma obj_0_report: "obj_0 (report en cfg e li s) = obj_0 s"
  by (simp add: report_def Let_def emit_def split: sum.splits)

lemma alpha_report: "alpha (report en cfg e li s) = alpha s"
  by (simp add: report_def Let_def emit_def split: sum.splits)

lemma epoch_report: "epoch (report en cfg e li s) = epoch s"
  by (simp add: report_def Let_def emit_def split: sum.splits)

lemma report_frame:
  "density (report en cfg e li s) = density s"
  "u_sol (report en cfg e li s) = u_sol s"
  "grads (report en cfg e li s) = grads s"
  "opt_state (report en cfg e li s) = opt_state s"
  "params (report en cfg e li s) = params s"
  by (simp_all add: report_def Let_def emit_def split: sum.splits)

lemma report_ok:
  assumes "li_density li \<noteq> []" and "log_interval cfg \<noteq> 0"
  shows "raised (report en cfg e li s) = raised s"
    and "training_data (report en cfg e li s) =
           training_data s @ [(e, np_sum (li_objective li), average (li_density li))]"
    and "trace (report en cfg e li s) =
           trace s @ [WriteFrame e, AppendRecord e] @
             (if e mod log_interval cfg = 0 then [Log e] else [])"
    and "console (report en cfg e li s) =
           console s @
             (if e mod log_interval cfg = 0
              then [Progress \<lparr> pl_epoch = e, pl_objective = np_sum (li_objective li),
                      pl_vf = average (li_density li), pl_loss = loss_function en li,
                      pl_rel_grey =
                        real (length (filter (\<lambda>rho. 5 / 100 < rho \<and> rho < 95 / 100) (li_density li)))
                          / real (length (li_density li)) \<rparr>]
              else [])"
  using assms
  by (simp_all add: report_def rel_grey_elements_def py_mod_def Let_def emit_def
        grey_elements_count)

section \<open>Before the loop\<close>

lemma reference_objective_pos:
  "0 < vr \<Longrightarrow> reference_objective vr p psi_0 = Inr ((if p = 0 then 1 else vr powr p) * psi_0)"
  by (simp add: reference_objective_def py_pow_def)

lemma initialize_fields:
  "alpha (initialize en cfg) = alpha_increment cfg"
  "console (initialize en cfg) = []"
  "trace (initialize en cfg) = [SolveFE]"
  "epoch (initialize en cfg) = None"
  "meta_file (initialize en cfg) = None"
  "density (initialize en cfg) = replicate (length (volumes_of en cfg)) (1 / 2)"
  "u_sol (initialize en cfg)
     = fe_solve en (nelx cfg) (nely cfg) (penal cfg) (replicate (length (volumes_of en cfg)) (1 / 2))"
  by (simp_all add: initialize_def Let_def split: sum.splits)

lemma initialize_result:
  "reference_objective (volume_ratio cfg) (penal cfg)
     (sum_list (project_psi en (nelx cfg) (nely cfg) (u_sol (initialize en cfg)))) = Inr v \<Longrightarrow>
   raised (initialize en cfg) = None \<and> obj_0 (initialize en cfg) = v
   \<and> training_data (initialize en cfg) = [(0, Finite v, average (density (initialize en cfg)))]"
  "reference_objective (volume_ratio cfg) (penal cfg)
     (sum_list (project_psi en (nelx cfg) (nely cfg) (u_sol (initialize en cfg)))) = Inl err \<Longrightarrow>
   raised (initialize en cfg) = Some err"
  by (simp_all add: initialize_fields) (simp_all add: initialize_def Let_def)

lemma initialize_ok:
  assumes "0 < volume_ratio cfg"
  shows "raised (initialize en cfg) = None"
    and "training_data (initialize en cfg)
           = [(0, Finite (obj_0 (initialize en cfg)), average (density (initialize en cfg)))]"
proof -
  from reference_objective_pos [OF assms]
  have "reference_objective (volume_ratio cfg) (penal cfg)
          (sum_list (project_psi en (nelx cfg) (nely cfg) (u_sol (initialize en cfg))))
        = Inr ((if penal cfg = 0 then 1 else volume_ratio cfg powr penal cfg)
               * sum_list (project_psi en (nelx cfg) (nely cfg) (u_sol (initialize en cfg))))" .
  from initialize_result(1) [OF this]
  show "raised (initialize en cfg) = None"
    and "training_data (initialize en cfg)
           = [(0, Finite (obj_0 (initialize en cfg)), average (density (initialize en cfg)))]"
    by simp_all
qed

section \<open>The loop\<close>

lemma run_epochs_raised: "raised s \<noteq> None \<Longrightarrow> run_epochs en cfg s es = s"
  by (cases es) simp_all

lemma run_epochs_append:
  "run_epochs en cfg s (es @ fs) = run_epochs en cfg (run_epochs en cfg s es) fs"
proof (induction es arbitrary: s)
  case Nil
  show ?case by simp
next
  case (Cons e es)
  show ?case
  proof (cases "raised s = None")
    case True
    then show ?thesis by (simp add: Cons.IH)
  next
    case False
    then show ?thesis by (simp add: run_epochs_raised)
  qed
qed

lemma train_step_ok:
  assumes "top_optimizer en (params s) (mid_points_of en cfg) \<noteq> []" and "log_interval cfg \<noteq> 0"
  shows "raised (train_step en cfg e s) = raised s"
    and "trace (train_step en cfg e s) =
           trace s @ [ZeroGrad, PredictDensity, SolveFE, ComputeLoss (fst (optimize en cfg e s)),
                      Backpropagate, AnnealPenalty, ClipGradients, UpdateParameters,
                      WriteFrame e, AppendRecord e] @
             (if e mod log_interval cfg = 0 then [Log e] else [])"
    and "training_data (train_step en cfg e s) =
           training_data s @ [(e, np_sum (li_objective (fst (optimize en cfg e s))),
                               average (top_optimizer en (params s) (mid_points_of en cfg)))]"
  using assms
  by (simp_all add: train_step_report report_ok li_density_optimize raised_optimize
        trace_optimize training_data_optimize)

lemma alpha_train_step:
  "alpha (train_step en cfg e s) = min (alpha_max cfg) (alpha s + alpha_increment cfg)"
  by (simp add: train_step_report alpha_report alpha_optimize)

lemma obj_0_train_step: "obj_0 (train_step en cfg e s) = obj_0 s"
  by (simp add: train_step_report obj_0_report obj_0_optimize)

lemma epoch_train_step: "epoch (train_step en cfg e s) = Some e"
  by (simp add: train_step_report epoch_report epoch_optimize)

lemma alpha_run_epochs:
  "0 \<le> alpha_increment cfg \<Longrightarrow> alpha s \<le> alpha_max cfg \<Longrightarrow>
     alpha s \<le> alpha (run_epochs en cfg s es) \<and> alpha (run_epochs en cfg s es) \<le> alpha_max cfg"
proof (induction es arbitrary: s)
  case Nil
  then show ?case by simp
next
  case (Cons e es)
  show ?case
  proof (cases "raised s = None")
    case False
    with Cons.prems show ?thesis by simp
  next
    case True
    let ?t = "train_step en cfg e s"
    have a: "alpha ?t = min (alpha_max cfg) (alpha s + alpha_increment cfg)"
      by (rule alpha_train_step)
    from a Cons.prems have le: "alpha s \<le> alpha ?t" and b: "alpha ?t \<le> alpha_max cfg"
      by simp_all
    from Cons.IH [OF Cons.prems(1) b] le True show ?thesis by simp
  qed
qed

lemma obj_0_run_epochs: "obj_0 (run_epochs en cfg s es) = obj_0 s"
  by (induction es arbitrary: s) (simp_all add: obj_0_train_step)

lemma run_epochs_ok:
  assumes "\<forall>p. top_optimizer en p (mid_points_of en cfg) \<noteq> []" and "log_interval cfg \<noteq> 0"
  shows "raised s = None \<Longrightarrow>
     raised (run_epochs en cfg s es) = None
     \<and> map fst (training_data (run_epochs en cfg s es)) = map fst (training_data s) @ es
     \<and> count_list (trace (run_epochs en cfg s es)) SolveFE
         = count_list (trace s) SolveFE + length es
     \<and> count_list (trace (run_epochs en cfg s es)) UpdateParameters
         = count_list (trace s) UpdateParameters + length es
     \<and> epoch (run_epochs en cfg s es) = (if es = [] then epoch s else Some (last es))"
proof (induction es arbitrary: s)
  case Nil
  then show ?case by simp
next
  case (Cons e es)
  let ?t = "train_step en cfg e s"
  from assms have ne: "top_optimizer en (params s) (mid_points_of en cfg) \<noteq> []" by simp
  note ok = train_step_ok [OF ne assms(2)]
  from ok(1) Cons.prems have r: "raised ?t = None" by simp
  from Cons.IH [OF r] Cons.prems show ?case
    by (simp add: ok epoch_train_step)
qed

lemma run_epochs_fold:
  assumes "\<forall>p. top_optimizer en p (mid_points_of en cfg) \<noteq> []" and "log_interval cfg \<noteq> 0"
  shows "raised s = None \<Longrightarrow> run_epochs en cfg s es = fold (train_step en cfg) es s"
proof (induction es arbitrary: s)
  case Nil
  show ?case by simp
next
  case (Cons e es)
  from assms have ne: "top_optimizer en (params s) (mid_points_of en cfg) \<noteq> []" by simp
  from train_step_ok(1) [OF ne assms(2)] Cons.prems
  have "raised (train_step en cfg e s) = None" by simp
  from Cons.IH [OF this] Cons.prems show ?case by simp
qed

lemma train_step_effect:
  "density (train_step en cfg e s) = top_optimizer en (params s) (mid_points_of en cfg)"
  "u_sol (train_step en cfg e s)
     = fe_solve en (nelx cfg) (nely cfg) (penal cfg)
         (top_optimizer en (params s) (mid_points_of en cfg))"
  "grads (train_step en cfg e s)
     = clip_grad_norm en (nrm_threshold cfg)
         (backward en (params s) (mid_points_of en cfg) (fst (optimize en cfg e s))
            (zero_grad en (grads s)))"
  "(opt_state (train_step en cfg e s), params (train_step en cfg e s))
     = adam_step en (opt_state s) (params s) (grads (train_step en cfg e s))"
  by (simp_all add: train_step_report report_frame density_optimize u_sol_optimize
        grads_optimize adam_optimize)

lemma loss_inputs_append: "loss_inputs (xs @ ys) = loss_inputs xs @ loss_inputs ys"
  by (induction xs rule: loss_inputs.induct) simp_all

lemma loss_inputs_report: "loss_inputs (trace (report en cfg e li s)) = loss_inputs (trace s)"
  by (simp add: report_def Let_def emit_def loss_inputs_append split: sum.splits)

lemma loss_inputs_train_step:
  "loss_inputs (trace (train_step en cfg e s)) =
     loss_inputs (trace s) @ [fst (optimize en cfg e s)]"
  by (simp add: train_step_report loss_inputs_report trace_optimize loss_inputs_append)

lemma loss_obj_0_run_epochs:
  "\<forall>x \<in> set (loss_inputs (trace s)). li_obj_0 x = obj_0 s \<Longrightarrow>
   \<forall>x \<in> set (loss_inputs (trace (run_epochs en cfg s es))). li_obj_0 x = obj_0 s"
proof (induction es arbitrary: s)
  case Nil
  then show ?case by simp
next
  case (Cons e es)
  show ?case
  proof (cases "raised s = None")
    case False
    with Cons.prems show ?thesis by simp
  next
    case True
    let ?t = "train_step en cfg e s"
    have "\<forall>x \<in> set (loss_inputs (trace ?t)). li_obj_0 x = obj_0 ?t"
      using Cons.prems by (auto simp: loss_inputs_train_step obj_0_train_step li_obj_0_optimize)
    from Cons.IH [OF this] True show ?thesis by (simp add: obj_0_train_step)
  qed
qed

lemma obj_0_finish: "obj_0 (finish en cfg s) = obj_0 s"
  by (simp add: finish_def Let_def split: option.splits)

lemma trace_finish: "trace (finish en cfg s) = trace s"
  by (simp add: finish_def Let_def split: option.splits)

section \<open>The parameter \<open>min_epochs\<close>\<close>

lemma initialize_min_epochs: "initialize en (cfg\<lparr>min_epochs := m\<rparr>) = initialize en cfg"
  by (simp add: initialize_def volumes_of_def)

lemma optimize_min_epochs: "optimize en (cfg\<lparr>min_epochs := m\<rparr>) e s = optimize en cfg e s"
  by (simp add: optimize_def mid_points_of_def loss_input_of_def vol_fraction_def
        volumes_of_def alpha_max_def)

lemma report_min_epochs: "report en (cfg\<lparr>min_epochs := m\<rparr>) e li s = report en cfg e li s"
  by (simp add: report_def Let_def split: sum.splits)

lemma train_step_min_epochs: "train_step en (cfg\<lparr>min_epochs := m\<rparr>) e s = train_step en cfg e s"
  by (simp add: train_step_def optimize_min_epochs report_min_epochs)

lemma run_epochs_min_epochs:
  "run_epochs en (cfg\<lparr>min_epochs := m\<rparr>) s es = run_epochs en cfg s es"
  by (induction es arbitrary: s) (simp_all add: train_step_min_epochs)

lemma training_loop_min_epochs:
  "training_loop en (cfg\<lparr>min_epochs := m\<rparr>) s = training_loop en cfg s"
  by (simp add: training_loop_def run_epochs_min_epochs)

lemma meta_file_train_step: "meta_file (train_step en cfg e s) = meta_file s"
  by (simp add: train_step_report report_def optimize_def Let_def emit_def
        split: sum.splits prod.splits)

lemma meta_file_run_epochs: "meta_file (run_epochs en cfg s es) = meta_file s"
  by (induction es arbitrary: s) (simp_all add: meta_file_train_step)

lemma set_entry_optimization_data:
  "set_entry ''Min epochs'' (PInt m) (optimization_data en cfg ep)
     = optimization_data en (cfg\<lparr>min_epochs := m\<rparr>) ep"
  by (simp add: set_entry_def optimization_data_def)

lemma finish_min_epochs:
  "meta_file s = None \<Longrightarrow>
   finish en (cfg\<lparr>min_epochs := m\<rparr>) s
     = (finish en cfg s)\<lparr>meta_file :=
          map_option (set_entry ''Min epochs'' (PInt m)) (meta_file (finish en cfg s))\<rparr>"
  by (simp add: finish_def Let_def set_entry_optimization_data write_optimization_data_def
        split: option.splits)

section \<open>The softmax layer\<close>

lemma exp_le_sum_list_exp: "v \<in> set z \<Longrightarrow> exp v \<le> sum_list (map exp z)" for v :: real
proof (induction z)
  case Nil
  then show ?case by simp
next
  case (Cons a z)
  have nn: "0 \<le> sum_list (map exp z)"
    by (rule sum_list_nonneg) auto
  show ?case
  proof (cases "v = a")
    case True
    with nn show ?thesis by simp
  next
    case False
    with Cons have "exp v \<le> sum_list (map exp z)" by simp
    with exp_ge_zero [of a] show ?thesis by (simp add: add_increasing)
  qed
qed

lemma softmax_range:
  assumes "rho \<in> set (softmax z)"
  shows "0 \<le> rho \<and> rho \<le> 1"
proof -
  from assms obtain v where v: "v \<in> set z" and rho: "rho = exp v / sum_list (map exp z)"
    by (auto simp: softmax_def)
  have le: "exp v \<le> sum_list (map exp z)" using v by (rule exp_le_sum_list_exp)
  have "0 < exp v" by simp
  with le have pos: "0 < sum_list (map exp z)" by linarith
  from le pos show ?thesis by (simp add: rho)
qed

lemma predict_eq: "predict net coords = (map (forward net) coords, net)"
  by (induction coords) (simp_all add: call_def)

section \<open>The claims\<close>

text \<open>
  C1, as amended. In an iteration that raises nothing and logs, the statements run in
  the order: zero the gradients, predict, solve, compute the loss, backpropagate, anneal
  the penalty weight, clip the gradients, update the parameters, write the frame, append
  the record, log. The penalty weight is annealed after the loss of the iteration was
  computed with the old value and before the optimizer step, not after it.
\<close>

theorem iteration_order:
  assumes "top_optimizer en (params s) (mid_points_of en cfg) \<noteq> []"
    and "log_interval cfg \<noteq> 0" and "e mod log_interval cfg = 0"
  shows "drop (length (trace s)) (trace (train_step en cfg e s))
           = [ZeroGrad, PredictDensity, SolveFE, ComputeLoss (fst (optimize en cfg e s)),
              Backpropagate, AnnealPenalty, ClipGradients, UpdateParameters,
              WriteFrame e, AppendRecord e, Log e]
       \<and> in_order [Backpropagate, AnnealPenalty, ClipGradients, UpdateParameters, Log e]
           (drop (length (trace s)) (trace (train_step en cfg e s)))
       \<and> li_alpha (fst (optimize en cfg e s)) = alpha s
       \<and> alpha (train_step en cfg e s) = min (alpha_max cfg) (alpha s + alpha_increment cfg)"
  using assms by (simp add: train_step_ok li_alpha_optimize alpha_train_step)

theorem iteration_order_witness:
  "top_optimizer demo_env (params (initialize demo_env demo_config)) (mid_points_of demo_env demo_config) \<noteq> []
   \<and> log_interval demo_config \<noteq> 0 \<and> 1 mod log_interval demo_config = 0
   \<and> in_order [Backpropagate, AnnealPenalty, ClipGradients, UpdateParameters, Log 1]
        (drop (length (trace (initialize demo_env demo_config)))
           (trace (train_step demo_env demo_config 1 (initialize demo_env demo_config))))"
proof -
  have h1: "top_optimizer demo_env (params (initialize demo_env demo_config))
              (mid_points_of demo_env demo_config) \<noteq> []"
    by (simp add: demo_env_def demo_config_def tounn_fixed_beam_def mid_points_of_def)
  have h2: "log_interval demo_config \<noteq> 0" by (simp add: demo_config_def tounn_fixed_beam_def)
  have h3: "1 mod log_interval demo_config = 0" by (simp add: demo_config_def tounn_fixed_beam_def)
  from iteration_order [OF h1 h2 h3] h1 h2 h3 show ?thesis by blast
qed

text \<open>
  C1 as stated (backpropagation, clipping, parameter update, annealing, logging) fails on
  the first iteration of the small instance: annealing comes before the update.
\<close>

theorem anneal_after_update_counterexample:
  "\<not> in_order [Backpropagate, ClipGradients, UpdateParameters, AnnealPenalty, Log 1]
       (drop (length (trace (initialize demo_env demo_config)))
          (trace (train_step demo_env demo_config 1 (initialize demo_env demo_config))))"
proof -
  have h1: "top_optimizer demo_env (params (initialize demo_env demo_config))
              (mid_points_of demo_env demo_config) \<noteq> []"
    by (simp add: demo_env_def demo_config_def tounn_fixed_beam_def mid_points_of_def)
  have h2: "log_interval demo_config \<noteq> 0" by (simp add: demo_config_def tounn_fixed_beam_def)
  have h3: "1 mod log_interval demo_config = 0" by (simp add: demo_config_def tounn_fixed_beam_def)
  from h3 show ?thesis
    by (simp add: train_step_ok [OF h1 h2])
qed

text \<open>
  C2. With \<open>max_epochs = 1\<close> the loop body never runs: the training record holds the
  epoch-0 row alone and the CSV file is written with it, but \<open>epoch\<close> is unbound, line 213
  raises \<open>NameError\<close> and no metadata file is written.
\<close>

theorem zero_epochs_no_metadata:
  "training_data (training_loop en (tounn_fixed_beam\<lparr>max_epochs := 1\<rparr>)
                    (initialize en (tounn_fixed_beam\<lparr>max_epochs := 1\<rparr>)))
     = [(0, Finite (obj_0 (initialize en tounn_fixed_beam)),
         average (density (initialize en tounn_fixed_beam)))]
   \<and> csv_file (run en (tounn_fixed_beam\<lparr>max_epochs := 1\<rparr>))
       = Some [(0, Finite (obj_0 (initialize en tounn_fixed_beam)),
                average (density (initialize en tounn_fixed_beam)))]
   \<and> epoch (training_loop en (tounn_fixed_beam\<lparr>max_epochs := 1\<rparr>)
               (initialize en (tounn_fixed_beam\<lparr>max_epochs := 1\<rparr>))) = None
   \<and> raised (run en (tounn_fixed_beam\<lparr>max_epochs := 1\<rparr>)) = Some NameError
   \<and> meta_file (run en (tounn_fixed_beam\<lparr>max_epochs := 1\<rparr>)) = None"
proof -
  let ?cfg = "tounn_fixed_beam\<lparr>max_epochs := 1\<rparr>"
  have same: "initialize en ?cfg = initialize en tounn_fixed_beam"
    by (simp add: initialize_def volumes_of_def)
  have pos: "0 < volume_ratio tounn_fixed_beam" by (simp add: tounn_fixed_beam_def)
  note ok = initialize_ok [OF pos, of en]
  have loop: "training_loop en ?cfg (initialize en ?cfg) = initialize en tounn_fixed_beam"
    by (simp add: training_loop_def same)
  show ?thesis
    by (simp add: run_def loop finish_def Let_def write_to_csv_def ok initialize_fields)
qed

text \<open>
  C3. The penalty weight starts at \<open>alpha_increment\<close>; after any number \<open>k\<close> of epochs it
  is at most its value after \<open>k + 1\<close> epochs and at most \<open>alpha_max = 100 * volume_ratio\<close>.
  The increment is not negative and not above the cap, as in the script (0.05 and 30).
\<close>

theorem alpha_nondecreasing_bounded:
  assumes "0 \<le> alpha_increment cfg" and "alpha_increment cfg \<le> alpha_max cfg"
  shows "alpha (initialize en cfg) = alpha_increment cfg
       \<and> alpha (run_epochs en cfg (initialize en cfg) [1..k])
           \<le> alpha (run_epochs en cfg (initialize en cfg) [1..k + 1])
       \<and> alpha (run_epochs en cfg (initialize en cfg) [1..k]) \<le> alpha_max cfg
       \<and> alpha_max cfg = 100 * volume_ratio cfg"
proof -
  let ?s0 = "initialize en cfg"
  have a0: "alpha ?s0 = alpha_increment cfg"
    by (simp add: initialize_fields)
  with assms have b0: "alpha ?s0 \<le> alpha_max cfg" by simp
  have bk: "alpha (run_epochs en cfg ?s0 [1..k]) \<le> alpha_max cfg"
    using alpha_run_epochs [OF assms(1) b0] by blast
  have mono: "alpha (run_epochs en cfg ?s0 [1..k]) \<le> alpha (run_epochs en cfg ?s0 [1..k + 1])"
  proof (cases "0 \<le> k")
    case True
    then have "[1..k + 1] = [1..k] @ [k + 1]"
      using upto_rec2 [of 1 "k + 1"] by simp
    then have "run_epochs en cfg ?s0 [1..k + 1] =
                 run_epochs en cfg (run_epochs en cfg ?s0 [1..k]) [k + 1]"
      by (simp only: run_epochs_append)
    with alpha_run_epochs [OF assms(1) bk, of en "[k + 1]"] show ?thesis by simp
  next
    case False
    then show ?thesis by simp
  qed
  from a0 mono bk show ?thesis by (simp add: alpha_max_def)
qed

theorem alpha_nondecreasing_bounded_witness:
  "0 \<le> alpha_increment tounn_fixed_beam \<and> alpha_increment tounn_fixed_beam \<le> alpha_max tounn_fixed_beam
   \<and> alpha (initialize demo_env tounn_fixed_beam) = 5 / 100
   \<and> alpha (run_epochs demo_env tounn_fixed_beam (initialize demo_env tounn_fixed_beam) [1..498])
       \<le> alpha (run_epochs demo_env tounn_fixed_beam (initialize demo_env tounn_fixed_beam) [1..499])
   \<and> alpha (run_epochs demo_env tounn_fixed_beam (initialize demo_env tounn_fixed_beam) [1..498]) \<le> 30"
proof -
  have h1: "0 \<le> alpha_increment tounn_fixed_beam" by (simp add: tounn_fixed_beam_def)
  have h2: "alpha_increment tounn_fixed_beam \<le> alpha_max tounn_fixed_beam"
    by (simp add: tounn_fixed_beam_def alpha_max_def)
  from alpha_nondecreasing_bounded [OF h1 h2, of demo_env 498] h1 h2 show ?thesis
    by (simp add: tounn_fixed_beam_def alpha_max_def)
qed

text \<open>
  C4. Every iteration solves the finite-element problem once, on the density predicted
  from the parameters it starts with, and steps the optimizer once, from those parameters
  and the clipped gradient of this iteration's loss; the trace has one solve and one
  update per iteration. When nothing raises (the volume ratio is positive, the predictor
  returns at least one density, \<open>log_interval\<close> is not zero), the loop is one such iteration
  for each epoch 1, ..., \<open>max_epochs - 1\<close> and stops when the counter reaches
  \<open>max_epochs\<close>.
\<close>

theorem one_solve_one_step_per_epoch:
  assumes "\<forall>p. top_optimizer en p (mid_points_of en cfg) \<noteq> []" and "log_interval cfg \<noteq> 0"
    and "0 < volume_ratio cfg"
  shows "(let d = top_optimizer en (params s) (mid_points_of en cfg);
              u = fe_solve en (nelx cfg) (nely cfg) (penal cfg) d;
              li = loss_input_of en cfg s d
                     (objective_of (penal cfg) d (project_psi en (nelx cfg) (nely cfg) u));
              g = clip_grad_norm en (nrm_threshold cfg)
                    (backward en (params s) (mid_points_of en cfg) li (zero_grad en (grads s)))
          in density (train_step en cfg e s) = d
           \<and> u_sol (train_step en cfg e s) = u
           \<and> grads (train_step en cfg e s) = g
           \<and> (opt_state (train_step en cfg e s), params (train_step en cfg e s))
               = adam_step en (opt_state s) (params s) g)
       \<and> count_list (drop (length (trace s)) (trace (train_step en cfg e s))) SolveFE = 1
       \<and> count_list (drop (length (trace s)) (trace (train_step en cfg e s))) UpdateParameters = 1
       \<and> training_loop en cfg (initialize en cfg)
           = fold (train_step en cfg) [1..max_epochs cfg - 1] (initialize en cfg)
       \<and> raised (training_loop en cfg (initialize en cfg)) = None
       \<and> map fst (training_data (training_loop en cfg (initialize en cfg)))
           = 0 # [1..max_epochs cfg - 1]
       \<and> count_list (trace (training_loop en cfg (initialize en cfg))) SolveFE
           = 1 + nat (max_epochs cfg - 1)
       \<and> count_list (trace (training_loop en cfg (initialize en cfg))) UpdateParameters
           = nat (max_epochs cfg - 1)
       \<and> epoch (training_loop en cfg (initialize en cfg))
           = (if max_epochs cfg \<le> 1 then None else Some (max_epochs cfg - 1))"
proof -
  from assms have ne: "top_optimizer en (params s) (mid_points_of en cfg) \<noteq> []" by simp
  have effect: "(let d = top_optimizer en (params s) (mid_points_of en cfg);
              u = fe_solve en (nelx cfg) (nely cfg) (penal cfg) d;
              li = loss_input_of en cfg s d
                     (objective_of (penal cfg) d (project_psi en (nelx cfg) (nely cfg) u));
              g = clip_grad_norm en (nrm_threshold cfg)
                    (backward en (params s) (mid_points_of en cfg) li (zero_grad en (grads s)))
          in density (train_step en cfg e s) = d
           \<and> u_sol (train_step en cfg e s) = u
           \<and> grads (train_step en cfg e s) = g
           \<and> (opt_state (train_step en cfg e s), params (train_step en cfg e s))
               = adam_step en (opt_state s) (params s) g)"
    using train_step_effect [of en cfg e s] fst_optimize [of en cfg e s]
    by (simp add: Let_def)
  have step: "count_list (drop (length (trace s)) (trace (train_step en cfg e s))) SolveFE = 1
       \<and> count_list (drop (length (trace s)) (trace (train_step en cfg e s))) UpdateParameters = 1"
    by (simp add: train_step_ok [OF ne assms(2)])
  let ?s0 = "initialize en cfg"
  note ok = initialize_ok [OF assms(3), of en]
  have r0: "raised ?s0 = None" by (rule ok(1))
  have i0: "map fst (training_data ?s0) = [0]" "trace ?s0 = [SolveFE]" "epoch ?s0 = None"
    by (simp_all add: ok(2) initialize_fields)
  have l: "max_epochs cfg \<le> 1 \<or> last [1..max_epochs cfg - 1] = max_epochs cfg - 1"
    using upto_rec2 [of 1 "max_epochs cfg - 1"] by (cases "max_epochs cfg \<le> 1") simp_all
  have f: "training_loop en cfg ?s0 = fold (train_step en cfg) [1..max_epochs cfg - 1] ?s0"
    unfolding training_loop_def by (rule run_epochs_fold [OF assms(1,2) r0])
  have loop: "raised (training_loop en cfg ?s0) = None
       \<and> map fst (training_data (training_loop en cfg ?s0)) = 0 # [1..max_epochs cfg - 1]
       \<and> count_list (trace (training_loop en cfg ?s0)) SolveFE = 1 + nat (max_epochs cfg - 1)
       \<and> count_list (trace (training_loop en cfg ?s0)) UpdateParameters
           = nat (max_epochs cfg - 1)
       \<and> epoch (training_loop en cfg ?s0)
           = (if max_epochs cfg \<le> 1 then None else Some (max_epochs cfg - 1))"
    using run_epochs_ok [OF assms(1,2) r0, of "[1..max_epochs cfg - 1]"] i0 l
    by (auto simp: training_loop_def)
  from effect step f loop show ?thesis by (simp only: simp_thms)
qed

theorem one_solve_one_step_per_epoch_witness:
  "(\<forall>p. top_optimizer demo_env p (mid_points_of demo_env demo_config) \<noteq> [])
   \<and> log_interval demo_config \<noteq> 0 \<and> 0 < volume_ratio demo_config
   \<and> u_sol (train_step demo_env demo_config 1 (initialize demo_env demo_config)) = [1 / 2, 1 / 2]
   \<and> opt_state (train_step demo_env demo_config 1 (initialize demo_env demo_config)) = 1
   \<and> params (train_step demo_env demo_config 1 (initialize demo_env demo_config)) = - (1 / 10)
   \<and> map fst (training_data (training_loop demo_env demo_config (initialize demo_env demo_config)))
       = [0, 1, 2]
   \<and> count_list (trace (training_loop demo_env demo_config (initialize demo_env demo_config))) SolveFE = 3
   \<and> count_list (trace (training_loop demo_env demo_config (initialize demo_env demo_config)))
       UpdateParameters = 2
   \<and> epoch (training_loop demo_env demo_config (initialize demo_env demo_config)) = Some 2"
proof -
  let ?s0 = "initialize demo_env demo_config"
  have h1: "\<forall>p. top_optimizer demo_env p (mid_points_of demo_env demo_config) \<noteq> []"
    by (simp add: demo_env_def demo_config_def tounn_fixed_beam_def mid_points_of_def)
  have h2: "log_interval demo_config \<noteq> 0" by (simp add: demo_config_def tounn_fixed_beam_def)
  have h3: "0 < volume_ratio demo_config" by (simp add: demo_config_def tounn_fixed_beam_def)
  have m: "max_epochs demo_config = 3" by (simp add: demo_config_def)
  have u: "[1..2::int] = [1, 2]" by (simp add: upto_rec1)
  have d: "top_optimizer demo_env p (mid_points_of demo_env demo_config) = [1 / 2, 1 / 2]" for p
    by (simp add: demo_env_def demo_config_def tounn_fixed_beam_def mid_points_of_def
          numeral_2_eq_2)
  have i: "params ?s0 = 0" "opt_state ?s0 = 0" "grads ?s0 = 0"
    by (simp_all add: initialize_def Let_def demo_env_def split: sum.splits)
  have e: "fe_solve demo_env = (\<lambda>nx ny p d. d)" "zero_grad demo_env = (\<lambda>g. 0)"
    "backward demo_env = (\<lambda>p mps li g. g + 1)" "clip_grad_norm demo_env = (\<lambda>t g. min t g)"
    "adam_step demo_env = (\<lambda>k p g. (Suc k, p - g))"
    by (simp_all add: demo_env_def)
  have n: "nrm_threshold demo_config = 1 / 10" by (simp add: demo_config_def tounn_fixed_beam_def)
  note t = one_solve_one_step_per_epoch [OF h1 h2 h3, of ?s0 1]
  from t [THEN conjunct1]
  have effect: "u_sol (train_step demo_env demo_config 1 ?s0) = [1 / 2, 1 / 2]
       \<and> opt_state (train_step demo_env demo_config 1 ?s0) = 1
       \<and> params (train_step demo_env demo_config 1 ?s0) = - (1 / 10)"
    by (simp add: d i e n Let_def)
  from t [THEN conjunct2, THEN conjunct2, THEN conjunct2, THEN conjunct2]
  have loop: "map fst (training_data (training_loop demo_env demo_config ?s0)) = [0, 1, 2]
       \<and> count_list (trace (training_loop demo_env demo_config ?s0)) SolveFE = 3
       \<and> count_list (trace (training_loop demo_env demo_config ?s0)) UpdateParameters = 2
       \<and> epoch (training_loop demo_env demo_config ?s0) = Some 2"
    by (simp add: m u)
  from effect loop h1 h2 h3 show ?thesis by (simp only: simp_thms)
qed

text \<open>
  C5. \<open>obj_0\<close> is assigned before the loop; no iteration changes it, every loss
  computation of the run receives that value, and it is the same at the end of the run.
\<close>

theorem obj_0_fixed_for_the_run:
  "obj_0 (train_step en cfg e s) = obj_0 s
   \<and> li_obj_0 (fst (optimize en cfg e s)) = obj_0 s
   \<and> obj_0 (run en cfg) = obj_0 (initialize en cfg)
   \<and> map li_obj_0 (loss_inputs (trace (run en cfg)))
       = replicate (length (loss_inputs (trace (run en cfg)))) (obj_0 (initialize en cfg))"
proof -
  let ?s0 = "initialize en cfg"
  have "loss_inputs (trace ?s0) = []" by (simp add: initialize_fields)
  then have "\<forall>x \<in> set (loss_inputs (trace ?s0)). li_obj_0 x = obj_0 ?s0" by simp
  from loss_obj_0_run_epochs [OF this]
  have "\<forall>x \<in> set (loss_inputs (trace (run en cfg))). li_obj_0 x = obj_0 ?s0"
    by (simp add: run_def training_loop_def trace_finish)
  then have "\<forall>y \<in> set (map li_obj_0 (loss_inputs (trace (run en cfg)))). y = obj_0 ?s0"
    by simp
  from replicate_length_same [OF this]
  have "map li_obj_0 (loss_inputs (trace (run en cfg)))
          = replicate (length (loss_inputs (trace (run en cfg)))) (obj_0 ?s0)"
    by simp
  moreover have "obj_0 (run en cfg) = obj_0 ?s0"
    by (simp add: run_def training_loop_def obj_0_finish obj_0_run_epochs)
  ultimately show ?thesis
    by (simp add: obj_0_train_step li_obj_0_optimize)
qed

text \<open>
  C6. Every value the predictor returns, at any coordinate and for any parameters (so at
  every epoch), lies in [0, 1], by the softmax layer alone; the script stores the
  predictor's output in the density field as it is.
\<close>

theorem predicted_density_in_unit_interval:
  assumes "y \<in> set (fst (predict net coords))" and "rho \<in> set y"
  shows "0 \<le> rho \<and> rho \<le> 1
       \<and> density (snd (optimize en cfg e s)) = top_optimizer en (params s) (mid_points_of en cfg)"
proof -
  from assms(1) obtain x where "y = forward net x" by (auto simp: predict_eq)
  with assms(2) have "rho \<in> set (softmax (linear (output_layer net)
                                    (feed (activation net) (hidden net) x)))"
    by (simp add: forward_def)
  then have "0 \<le> rho \<and> rho \<le> 1" by (rule softmax_range)
  then show ?thesis by (simp add: density_optimize)
qed

theorem predicted_density_in_unit_interval_witness:
  "forward demo_net [1, 2] \<in> set (fst (predict demo_net [[1, 2]]))
   \<and> forward demo_net [1, 2] ! 0 \<in> set (forward demo_net [1, 2])
   \<and> forward demo_net [1, 2] = [1 / 2, 1 / 2]
   \<and> 0 \<le> forward demo_net [1, 2] ! 0 \<and> forward demo_net [1, 2] ! 0 \<le> 1
   \<and> density (snd (optimize demo_env demo_config 1 (initialize demo_env demo_config)))
       = top_optimizer demo_env (params (initialize demo_env demo_config))
           (mid_points_of demo_env demo_config)"
proof -
  have f: "forward demo_net [1, 2] = [1 / 2, 1 / 2]"
    by (simp add: forward_def demo_net_def softmax_def linear_def)
  have h1: "forward demo_net [1, 2] \<in> set (fst (predict demo_net [[1, 2]]))"
    by (simp add: call_def)
  have h2: "forward demo_net [1, 2] ! 0 \<in> set (forward demo_net [1, 2])"
    by (simp add: f)
  from predicted_density_in_unit_interval
         [OF h1 h2, of demo_env demo_config 1 "initialize demo_env demo_config"] h1 h2 f
  show ?thesis by simp
qed

text \<open>
  C7. Changing \<open>min_epochs\<close> changes neither the state the loop starts in nor the state it
  ends in; the whole run differs in the \<open>Min epochs\<close> entry of the metadata at most.
\<close>

theorem min_epochs_is_dead_configuration:
  "training_loop en (cfg\<lparr>min_epochs := m\<rparr>) (initialize en (cfg\<lparr>min_epochs := m\<rparr>))
     = training_loop en cfg (initialize en cfg)
   \<and> run en (cfg\<lparr>min_epochs := m\<rparr>)
       = (run en cfg)\<lparr>meta_file :=
            map_option (set_entry ''Min epochs'' (PInt m)) (meta_file (run en cfg))\<rparr>"
proof -
  have "meta_file (training_loop en cfg (initialize en cfg)) = None"
    by (simp add: training_loop_def meta_file_run_epochs initialize_fields)
  from finish_min_epochs [OF this] show ?thesis
    by (simp add: run_def training_loop_min_epochs initialize_min_epochs)
qed

text \<open>
  C8. At a logged epoch the progress line carries the number of predicted densities
  strictly between 0.05 and 0.95 divided by the number of cells.
\<close>

theorem grey_fraction_reported:
  assumes "top_optimizer en (params s) (mid_points_of en cfg) = d"
    and "d \<noteq> []" and "log_interval cfg \<noteq> 0" and "e mod log_interval cfg = 0"
  shows "rel_grey_elements d
           = Inr (real (length (filter (\<lambda>rho. 5 / 100 < rho \<and> rho < 95 / 100) d)) / real (length d))
       \<and> console (train_step en cfg e s)
           = console s @
               [Progress \<lparr> pl_epoch = e,
                           pl_objective = np_sum (li_objective (fst (optimize en cfg e s))),
                           pl_vf = average d,
                           pl_loss = loss_function en (fst (optimize en cfg e s)),
                           pl_rel_grey =
                             real (length (filter (\<lambda>rho. 5 / 100 < rho \<and> rho < 95 / 100) d))
                               / real (length d) \<rparr>]"
  using assms
  by (simp add: rel_grey_elements_def grey_elements_count train_step_report report_ok
        li_density_optimize console_optimize)

theorem grey_fraction_reported_witness:
  "top_optimizer demo_env (params (initialize demo_env demo_config)) (mid_points_of demo_env demo_config)
     = [1 / 2, 1 / 2]
   \<and> [1 / 2, 1 / 2 :: real] \<noteq> [] \<and> log_interval demo_config \<noteq> 0 \<and> 1 mod log_interval demo_config = 0
   \<and> rel_grey_elements [1 / 2, 1 / 2] = Inr 1
   \<and> (\<exists>pl. console (train_step demo_env demo_config 1 (initialize demo_env demo_config)) = [Progress pl]
          \<and> pl_rel_grey pl = 1)"
proof -
  have h1: "top_optimizer demo_env (params (initialize demo_env demo_config))
              (mid_points_of demo_env demo_config) = [1 / 2, 1 / 2]"
    by (simp add: demo_env_def demo_config_def tounn_fixed_beam_def mid_points_of_def
          numeral_2_eq_2)
  have h2: "[1 / 2, 1 / 2 :: real] \<noteq> []" by simp
  have h3: "log_interval demo_config \<noteq> 0" by (simp add: demo_config_def tounn_fixed_beam_def)
  have h4: "1 mod log_interval demo_config = 0" by (simp add: demo_config_def tounn_fixed_beam_def)
  have c0: "console (initialize demo_env demo_config) = []" by (simp add: initialize_fields)
  from grey_fraction_reported [OF h1 h2 h3 h4] h1 h3 h4 c0 show ?thesis by simp
qed

text \<open>
  C10. The reference solve runs on the density 0.5 in every cell, while \<open>obj_0\<close> is the
  solved strain energy scaled by \<open>volume_ratio ** penal\<close> (when that power is a float; line
  118 raises otherwise), which is 0.3 cubed in the script: two different constants.
\<close>

theorem reference_solve_uses_half_density:
  "density (initialize en cfg) = replicate (length (volumes_of en cfg)) (1 / 2)
   \<and> u_sol (initialize en cfg)
       = fe_solve en (nelx cfg) (nely cfg) (penal cfg) (replicate (length (volumes_of en cfg)) (1 / 2))
   \<and> (case py_pow (volume_ratio cfg) (penal cfg) of
         Inl err \<Rightarrow> raised (initialize en cfg) = Some err
       | Inr (PyFloat c) \<Rightarrow>
           raised (initialize en cfg) = None
           \<and> obj_0 (initialize en cfg)
               = c * sum_list (project_psi en (nelx cfg) (nely cfg) (u_sol (initialize en cfg)))
       | Inr (PyComplex c) \<Rightarrow> raised (initialize en cfg) = Some AttributeError)
   \<and> volume_ratio tounn_fixed_beam = 3 / 10
   \<and> py_pow (volume_ratio tounn_fixed_beam) (penal tounn_fixed_beam) = Inr (PyFloat ((3 / 10) ^ 3))
   \<and> raised (initialize en tounn_fixed_beam) = None
   \<and> obj_0 (initialize en tounn_fixed_beam)
       = (3 / 10) ^ 3
           * sum_list (project_psi en 180 60 (u_sol (initialize en tounn_fixed_beam)))
   \<and> volume_ratio tounn_fixed_beam \<noteq> 1 / 2"
proof -
  have general: "(case py_pow (volume_ratio cfg) (penal cfg) of
         Inl err \<Rightarrow> raised (initialize en cfg) = Some err
       | Inr (PyFloat c) \<Rightarrow>
           raised (initialize en cfg) = None
           \<and> obj_0 (initialize en cfg)
               = c * sum_list (project_psi en (nelx cfg) (nely cfg) (u_sol (initialize en cfg)))
       | Inr (PyComplex c) \<Rightarrow> raised (initialize en cfg) = Some AttributeError)"
    by (simp add: initialize_def Let_def reference_objective_def
          split: sum.splits py_number.splits)
  have p: "py_pow (volume_ratio tounn_fixed_beam) (penal tounn_fixed_beam)
             = Inr (PyFloat ((3 / 10) ^ 3))"
    by (simp add: py_pow_def tounn_fixed_beam_def)
  have script: "raised (initialize en tounn_fixed_beam) = None
       \<and> obj_0 (initialize en tounn_fixed_beam)
           = (3 / 10) ^ 3
               * sum_list (project_psi en 180 60 (u_sol (initialize en tounn_fixed_beam)))"
    using p
    by (simp add: initialize_def Let_def reference_objective_def)
       (simp add: tounn_fixed_beam_def)
  have c: "volume_ratio tounn_fixed_beam = 3 / 10" "volume_ratio tounn_fixed_beam \<noteq> 1 / 2"
    by (simp_all add: tounn_fixed_beam_def)
  from general p script c show ?thesis
    by (simp only: initialize_fields simp_thms)
qed

end
